theory Spec2Isabelle
  imports Main "HOL-Library.AList"
begin

section \<open>Values, dictionaries and exceptions\<close>

text \<open>
  The service moves Python values between a request body, a Pydantic model, an ORM
  instance and a table row without computing on them. A timezone-aware \<open>datetime\<close> is
  the instant it denotes, in microseconds since the epoch; a \<open>float\<close> is a finite binary
  fraction, mantissa and exponent. A Python \<open>dict\<close> keeps its insertion order: it is an
  association list.
\<close>

type_synonym datetime = int

datatype float64 = Float64 int int

datatype val = VNone | VInt int | VStr string | VFloat float64 | VDatetime datetime

type_synonym dict = "(string \<times> val) list"

datatype exc =
    AttributeError string string
  | TypeError string
  | IntegrityError string
  | OperationalError string
  | InvalidRequestError string

text \<open>
  \<open>HTTPException\<close> is what the handlers raise; \<open>RequestValidationError\<close> is what the
  routing layer answers (status 422) when an argument does not fit its declared type,
  before the handler runs. It carries the offending fields.
\<close>

datatype http_error =
    HTTPException int string
  | RequestValidationError "string list"

definition quoted :: "string \<Rightarrow> string" where
  "quoted s = [CHR 0x27] @ s @ [CHR 0x27]"

fun str_exc :: "exc \<Rightarrow> string" where
  "str_exc (AttributeError cls name) =
     ''type object '' @ quoted cls @ '' has no attribute '' @ quoted name"
| "str_exc (TypeError name) =
     quoted name @ '' is an invalid keyword argument for Weather''"
| "str_exc (IntegrityError m) = m"
| "str_exc (OperationalError m) = m"
| "str_exc (InvalidRequestError m) = m"




section \<open>models/weather.py\<close>

subsection \<open>The mapped class \<open>Weather\<close>\<close>

text \<open>
  Modelled from the spec: the declarative base \<open>framework.db.Base\<close> that \<open>Weather\<close>
  extends is not among the source files. Section 3 of the specification gives the entity
  exactly the nine attributes that the class body declares, with \<open>collection_time\<close> the
  primary key, and so does the docstring of the class: \<open>Base\<close> is the plain declarative
  base and contributes no column. A mapped class has a column attribute only where a
  \<open>Column\<close> is declared.
\<close>

definition Base_columns :: "string list" where
  "Base_columns = []"

definition Weather_columns :: "string list" where
  "Weather_columns = Base_columns @
     [''collection_time'', ''temperature'', ''temperature_min'', ''temperature_max'',
      ''humidity'', ''description'', ''feels_like'', ''wind_speed'', ''wind_direction'']"


text \<open>
  An instance is its attribute dictionary. \<open>setattr\<close> stores under any name, a column or
  not; reading a column attribute that was never set gives \<open>None\<close>.
\<close>

type_synonym obj = dict


definition getattr :: "obj \<Rightarrow> string \<Rightarrow> val" where
  "getattr ob name = (case map_of ob name of Some v \<Rightarrow> v | None \<Rightarrow> VNone)"



subsection \<open>The input schema \<open>WeatherCreate\<close>\<close>
















section \<open>The session and the table \<open>weather_current\<close>\<close>

text \<open>
  What the store does wrong is an input of the model: a statement of a query fails, a
  statement of the flush fails, or the COMMIT fails after the flush has written.
  The clock gives the successive readings of \<open>datetime.now(UTC)\<close>.
\<close>

datatype fault = NoFault | QueryFault string | FlushFault string | CommitFault string

record env =
  clock :: "nat \<Rightarrow> datetime"
  fault :: fault

text \<open>
  A session holds the committed rows, the rows as its open transaction sees them, and
  the unit of work: instances added, instances loaded and changed (with the row they
  were loaded from), rows to delete.
\<close>

record session =
  committed :: "dict list"
  txn :: "dict list"
  new :: "obj list"
  dirty :: "(dict \<times> obj) list"
  deleted :: "dict list"

text \<open>\<open>get_db\<close> hands each request a session of its own.\<close>

definition get_db :: "dict list \<Rightarrow> session" where
  "get_db rows = \<lparr>committed = rows, txn = rows, new = [], dirty = [], deleted = []\<rparr>"

definition pk :: "dict \<Rightarrow> val" where
  "pk r = getattr r ''collection_time''"












text \<open>
  \<open>db.query(Weather).order_by(desc(Weather.collection_time)).offset(offset).limit(limit).all()\<close>
\<close>

fun instant :: "val \<Rightarrow> int" where
  "instant (VDatetime t) = t"
| "instant _ = 0"

definition query_page :: "env \<Rightarrow> int \<Rightarrow> int \<Rightarrow> session \<Rightarrow> exc + obj list" where
  "query_page e offset limit s =
     (case fault e of
        QueryFault m \<Rightarrow> Inl (OperationalError m)
      | _ \<Rightarrow> Inr (take (nat limit) (drop (nat offset)
                    (sort_key (\<lambda>r. - instant (pk r)) (txn s)))))"

section \<open>api/weather.py\<close>

definition serialize_sqlalchemy_obj :: "obj \<Rightarrow> dict" where
  "serialize_sqlalchemy_obj ob = map (\<lambda>column. (column, getattr ob column)) Weather_columns"

definition internal_error :: "exc \<Rightarrow> http_error" where
  "internal_error x = HTTPException 500 (''Internal server error: '' @ str_exc x)"


text \<open>
  \<open>page\<close> and \<open>limit\<close> are declared \<open>Query(1, ge=1)\<close> and \<open>Query(10, ge=1, le=100)\<close>:
  a value out of range is answered before the body of the handler runs.
\<close>

definition list_weather :: "int \<Rightarrow> int \<Rightarrow> env \<Rightarrow> session \<Rightarrow> (http_error + dict list) \<times> session" where
  "list_weather page limit e db =
     (let invalid = (if page < 1 then [''page''] else [])
                    @ (if limit < 1 \<or> 100 < limit then [''limit''] else [])
      in if invalid \<noteq> [] then (Inl (RequestValidationError invalid), db)
      else
        let offset = (page - 1) * limit in
        (case query_page e offset limit db of
           Inl x \<Rightarrow> (Inl (internal_error x), db)
         | Inr weather_records \<Rightarrow> (Inr (map serialize_sqlalchemy_obj weather_records), db)))"









section \<open>Scenarios\<close>

text \<open>
  The row of the concrete scenarios of the specification, collected at
  2025-09-19T14:00:00Z, an older row, and the bodies of the requests made on them.
\<close>

definition scenario_env :: env where
  "scenario_env = \<lparr>clock = (\<lambda>n. 1758290400000000 + int n), fault = NoFault\<rparr>"



definition scenario_row :: dict where
  "scenario_row = [(''collection_time'', VDatetime 1758290400000000),
                   (''temperature'', VInt 72), (''temperature_min'', VNone),
                   (''temperature_max'', VNone), (''humidity'', VInt 55),
                   (''description'', VNone), (''feels_like'', VNone),
                   (''wind_speed'', VNone), (''wind_direction'', VNone)]"

definition earlier_row :: dict where
  "earlier_row = [(''collection_time'', VDatetime 1758286800000000),
                  (''temperature'', VInt 70), (''temperature_min'', VNone),
                  (''temperature_max'', VNone), (''humidity'', VInt 50),
                  (''description'', VStr ''Clear skies''), (''feels_like'', VNone),
                  (''wind_speed'', VNone), (''wind_direction'', VInt 180)]"





section \<open>Lemmas about the model\<close>





lemma getattr_serialize:
  "c \<in> set Weather_columns \<Longrightarrow> getattr (serialize_sqlalchemy_obj ob) c = getattr ob c"
proof -
  have "map_of (map (\<lambda>c. (c, f c)) cs) c = Some (f c)" if "c \<in> set cs" for f :: "string \<Rightarrow> val" and cs
    using that by (induction cs) auto
  then show "c \<in> set Weather_columns \<Longrightarrow> ?thesis"
    by (simp add: getattr_def serialize_sqlalchemy_obj_def)
qed

lemma pk_serialize: "pk (serialize_sqlalchemy_obj ob) = pk ob"
  by (simp add: pk_def getattr_serialize Weather_columns_def Base_columns_def)

lemma sorted_desc_sort_key:
  "sorted_wrt (\<lambda>a b. f b \<le> (f a :: int)) (sort_key (\<lambda>r. - f r) xs)"
proof -
  have "sorted (map (\<lambda>r. - f r) (sort_key (\<lambda>r. - f r) xs))" by (rule sorted_sort_key)
  then show ?thesis by (simp add: sorted_map)
qed

lemma sorted_wrt_take_drop:
  "sorted_wrt P xs \<Longrightarrow> sorted_wrt P (take n (drop k xs))"
  by (simp add: sorted_wrt_drop sorted_wrt_take)























text \<open>Failures of the write.\<close>

lemma committed_insert_rows [simp]: "committed (s\<lparr>txn := t\<rparr>) = committed s"
  by simp













section \<open>The claims\<close>

subsection \<open>Lookup by id\<close>




subsection \<open>Create\<close>





subsection \<open>Updates\<close>








subsection \<open>List\<close>

text \<open>
  Claim C8. For every \<open>page \<ge> 1\<close> and \<open>limit\<close> from 1 to 100, on a store that answers
  the query, list returns the stored rows ordered by \<open>collection_time\<close> descending and
  cut to the window from \<open>(page - 1) * limit\<close>, of \<open>limit\<close> rows: at most \<open>limit\<close> rows,
  and the empty list, not an error, when the window starts past the last row.
\<close>

theorem list_weather_page:
  assumes "1 \<le> page" and "1 \<le> limit" and "limit \<le> 100" and "\<forall>m. fault e \<noteq> QueryFault m"
  shows "\<exists>result.
           list_weather page limit e (get_db rows) = (Inr result, get_db rows)
         \<and> result = map serialize_sqlalchemy_obj
               (take (nat limit) (drop (nat ((page - 1) * limit))
                  (sort_key (\<lambda>r. - instant (pk r)) rows)))
         \<and> int (length result) \<le> limit
         \<and> sorted_wrt (\<lambda>a b. instant (pk b) \<le> instant (pk a)) result
         \<and> (int (length rows) \<le> (page - 1) * limit \<longrightarrow> result = [])"
proof -
  let ?sorted = "sort_key (\<lambda>r. - instant (pk r)) rows"
  let ?window = "take (nat limit) (drop (nat ((page - 1) * limit)) ?sorted)"
  have q: "query_page e ((page - 1) * limit) limit (get_db rows) = Inr ?window"
    using assms(4) by (cases "fault e") (simp_all add: query_page_def get_db_def)
  have run: "list_weather page limit e (get_db rows)
               = (Inr (map serialize_sqlalchemy_obj ?window), get_db rows)"
    using assms(1-3) by (simp add: list_weather_def q)
  have len: "int (length (map serialize_sqlalchemy_obj ?window)) \<le> limit"
    using assms(2) by simp
  have "sorted_wrt (\<lambda>a b. instant (pk b) \<le> instant (pk a)) ?window"
    by (intro sorted_wrt_take_drop sorted_desc_sort_key)
  then have srt: "sorted_wrt (\<lambda>a b. instant (pk b) \<le> instant (pk a))
                    (map serialize_sqlalchemy_obj ?window)"
    by (simp add: sorted_wrt_map pk_serialize)
  have past: "int (length rows) \<le> (page - 1) * limit \<longrightarrow> map serialize_sqlalchemy_obj ?window = []"
    by auto
  from run len srt past show ?thesis by blast
qed

text \<open>C8 on two rows stored oldest first: page 2 of size 1 is the older row, page 3 is empty.\<close>

theorem list_weather_page_witness:
  "list_weather 2 1 scenario_env (get_db [earlier_row, scenario_row])
     = (Inr [earlier_row], get_db [earlier_row, scenario_row])
 \<and> list_weather 3 1 scenario_env (get_db [earlier_row, scenario_row])
     = (Inr [], get_db [earlier_row, scenario_row])"
proof -
  have f: "\<forall>m. fault scenario_env \<noteq> QueryFault m" by (simp add: scenario_env_def)
  have k1: "instant (pk earlier_row) = 1758286800000000"
    by (simp add: pk_def getattr_def earlier_row_def)
  have k2: "instant (pk scenario_row) = 1758290400000000"
    by (simp add: pk_def getattr_def scenario_row_def)
  have srt: "sort_key (\<lambda>r. - instant (pk r)) [earlier_row, scenario_row]
               = [scenario_row, earlier_row]"
    by (simp add: k1 k2)
  have ser: "serialize_sqlalchemy_obj earlier_row = earlier_row"
    by (simp add: serialize_sqlalchemy_obj_def Weather_columns_def Base_columns_def
        getattr_def earlier_row_def)
  have "\<exists>result.
           list_weather 2 1 scenario_env (get_db [earlier_row, scenario_row])
             = (Inr result, get_db [earlier_row, scenario_row])
         \<and> result = map serialize_sqlalchemy_obj
               (take (nat 1) (drop (nat ((2 - 1) * 1))
                  (sort_key (\<lambda>r. - instant (pk r)) [earlier_row, scenario_row])))
         \<and> int (length result) \<le> 1
         \<and> sorted_wrt (\<lambda>a b. instant (pk b) \<le> instant (pk a)) result
         \<and> (int (length [earlier_row, scenario_row]) \<le> (2 - 1) * 1 \<longrightarrow> result = [])"
    by (rule list_weather_page) (simp_all add: f)
  then obtain second where a2: "list_weather 2 1 scenario_env (get_db [earlier_row, scenario_row])
             = (Inr second, get_db [earlier_row, scenario_row])"
    and b2: "second = map serialize_sqlalchemy_obj
               (take (nat 1) (drop (nat ((2 - 1) * 1))
                  (sort_key (\<lambda>r. - instant (pk r)) [earlier_row, scenario_row])))"
    by blast
  have "second = [earlier_row]"
    by (simp only: b2 srt) (simp add: ser)
  with a2 have p2: "list_weather 2 1 scenario_env (get_db [earlier_row, scenario_row])
     = (Inr [earlier_row], get_db [earlier_row, scenario_row])"
    by simp
  have "\<exists>result.
           list_weather 3 1 scenario_env (get_db [earlier_row, scenario_row])
             = (Inr result, get_db [earlier_row, scenario_row])
         \<and> result = map serialize_sqlalchemy_obj
               (take (nat 1) (drop (nat ((3 - 1) * 1))
                  (sort_key (\<lambda>r. - instant (pk r)) [earlier_row, scenario_row])))
         \<and> int (length result) \<le> 1
         \<and> sorted_wrt (\<lambda>a b. instant (pk b) \<le> instant (pk a)) result
         \<and> (int (length [earlier_row, scenario_row]) \<le> (3 - 1) * 1 \<longrightarrow> result = [])"
    by (rule list_weather_page) (simp_all add: f)
  then obtain third where a3: "list_weather 3 1 scenario_env (get_db [earlier_row, scenario_row])
             = (Inr third, get_db [earlier_row, scenario_row])"
    and b3: "int (length [earlier_row, scenario_row]) \<le> (3 - 1) * 1 \<longrightarrow> third = []"
    by blast
  from b3 have "third = []" by simp
  with a3 have p3: "list_weather 3 1 scenario_env (get_db [earlier_row, scenario_row])
     = (Inr [], get_db [earlier_row, scenario_row])"
    by simp
  from p2 p3 show ?thesis by simp
qed

subsection \<open>Rollback\<close>



subsection \<open>Serialization\<close>



end
